theory Spec2Isabelle
  imports Main "HOL-Library.Word"
begin

section \<open>The GPU cooling device of drivers/thermal/gpu\_cooling.c\<close>

text \<open>
  The driver maps the cooling states of the thermal governor onto the frequency levels
  of the GPU and back, and ties the lifetime of each cooling device to an identifier of
  a process-wide allocator and to an entry of the thermal registry.

  C types. An \<open>unsigned int\<close> is a 32-bit word. The width of \<open>unsigned long\<close> depends
  on the target (64 bits on the arm64 target of this tree, 32 bits on a 32-bit build), so
  it is a type variable \<open>'ul\<close>: every function below works on \<open>'ul word\<close> and every
  theorem holds for each width. Status codes and identifiers are the integers the C
  functions return: \<open>0\<close>, a negated errno, or an identifier, none of them computed with.
\<close>

type_synonym c_uint = "32 word"
type_synonym addr = nat

definition EINVAL :: int where
  "EINVAL = 22"

definition ENOSPC :: int where
  "ENOSPC = 28"

subsection \<open>The device structure\<close>

text \<open>
  Modelled from the spec: \<open>struct gpufreq_cooling_device\<close> is declared in
  \<open>linux/gpu_cooling.h\<close>, a header outside the driver file. The fields are the
  ones gpu\_cooling.c reads and writes, with the types of the spec's data model
  (\<open>id: integer\<close>, \<open>requested_state: unsigned integer\<close>, two optional queries
  \<open>() -> integer\<close>, an optional request \<open>(unsigned integer) -> void\<close>, the registry
  handle). The source agrees with them: it prints \<open>gpufreq_state\<close> with \<open>%d\<close> next to
  \<open>%ld\<close> for the \<open>unsigned long\<close> argument, converts the result of
  \<open>get_gpu_max_level\<close> with \<open>(unsigned long)\<close> and the argument of \<open>set_gpu_freq_idx\<close>
  with \<open>(unsigned int)\<close>.

  A function pointer is an \<open>option\<close>: \<open>None\<close> is \<open>NULL\<close>. The callbacks belong to the
  frequency driver; \<open>'hw\<close> is the state of that driver and of the hardware, which the
  queries read and which a level request changes. A query returns a number of some
  integer type of C; the driver does nothing with it but convert it to \<open>unsigned long\<close>,
  and C converts any integer to an unsigned type modulo \<open>2 ^ w\<close>, so the model takes
  the number itself (an \<open>int\<close>) and converts it with \<open>word_of_int\<close>.
\<close>

record 'hw gpufreq_cooling_device =
  id_dev :: int
  cool_dev :: "addr option"
  gpufreq_state :: c_uint
  get_gpu_max_level :: "('hw \<Rightarrow> int) option"
  get_gpu_current_max_level :: "('hw \<Rightarrow> int) option"
  set_gpu_freq_idx :: "(c_uint \<Rightarrow> 'hw \<Rightarrow> 'hw) option"

subsection \<open>The callbacks of the cooling device\<close>

text \<open>
  Each callback receives \<open>cdev\<close> and reads the device from \<open>cdev->devdata\<close>; here it
  receives that device. An output parameter \<open>unsigned long *state\<close> is an argument
  (the value the caller left there) and a component of the result.

  \<open>gpufreq_get_max_state\<close>: when \<open>get_gpu_max_level\<close> is set, \<open>*state\<close> becomes its
  result, converted to \<open>unsigned long\<close>; the function returns 0 in both cases.
\<close>

definition gpufreq_get_max_state ::
  "'hw gpufreq_cooling_device \<Rightarrow> 'hw \<Rightarrow> 'ul::len word \<Rightarrow> int \<times> 'ul word" where
  "gpufreq_get_max_state gpufreq_device hw state =
     (case get_gpu_max_level gpufreq_device of
        Some f \<Rightarrow> (0, word_of_int (f hw))
      | None \<Rightarrow> (0, state))"

text \<open>
  \<open>gpufreq_get_cur_state\<close>: \<open>max_state\<close> and \<open>temp\<close> start at 0; the status of
  \<open>gpufreq_get_max_state\<close> is dropped. Without \<open>get_gpu_current_max_level\<close> the
  function returns \<open>-EINVAL\<close> and leaves \<open>*state\<close> alone.
\<close>

definition gpufreq_get_cur_state ::
  "'hw gpufreq_cooling_device \<Rightarrow> 'hw \<Rightarrow> 'ul::len word \<Rightarrow> int \<times> 'ul word" where
  "gpufreq_get_cur_state gpufreq_device hw state =
     (let max_state = snd (gpufreq_get_max_state gpufreq_device hw 0) in
      case get_gpu_current_max_level gpufreq_device of
        Some f \<Rightarrow> (let temp = word_of_int (f hw) in (0, (max_state - 1) - temp))
      | None \<Rightarrow> (- EINVAL, state))"

text \<open>
  \<open>gpufreq_set_cur_state\<close>: the store into the \<open>unsigned int\<close> field converts the
  \<open>unsigned long\<close> argument (\<open>ucast\<close>). The test \<open>state >= 0 && state <= max_state\<close>
  is on \<open>unsigned long\<close> values. The result is the status, the device after the call
  and the hardware state after the call: \<open>g level hw\<close> when \<open>set_gpu_freq_idx\<close> was
  called with \<open>level\<close>, \<open>hw\<close> itself when it was not called.
\<close>

definition gpufreq_set_cur_state ::
  "'hw gpufreq_cooling_device \<Rightarrow> 'hw \<Rightarrow> 'ul::len word
     \<Rightarrow> int \<times> 'hw gpufreq_cooling_device \<times> 'hw" where
  "gpufreq_set_cur_state gpufreq_device hw state =
     (let dev = gpufreq_device\<lparr>gpufreq_state := ucast state\<rparr>;
          (ret, max_state) = gpufreq_get_max_state dev hw 0;
          level = max_state - 1 - state
      in if 0 \<le> level \<and> level \<le> max_state
         then (case set_gpu_freq_idx dev of
                 Some g \<Rightarrow> (0, dev, g (ucast level) hw)
               | None \<Rightarrow> (0, dev, hw))
         else (0, dev, hw))"

text \<open>
  A frequency driver that only records the levels it is asked for: its state is the list
  of the requests so far. With it, the hardware state after a call shows every call of
  \<open>set_gpu_freq_idx\<close>.
\<close>

definition log_request :: "c_uint \<Rightarrow> c_uint list \<Rightarrow> c_uint list" where
  "log_request level requests = requests @ [level]"

text \<open>The device of the spec's scenario: four levels, level 1 in effect.\<close>

definition scenario_dev :: "(c_uint list) gpufreq_cooling_device" where
  "scenario_dev =
     \<lparr>id_dev = 0, cool_dev = None, gpufreq_state = 0,
      get_gpu_max_level = Some (\<lambda>_. 4),
      get_gpu_current_max_level = Some (\<lambda>_. 1),
      set_gpu_freq_idx = Some log_request\<rparr>"

subsection \<open>The identifier allocator\<close>

text \<open>
  Modelled from the spec: \<open>idr_alloc\<close> and \<open>idr_remove\<close> belong to the kernel's idr
  library, outside the driver file. The spec describes the allocator as
  a mapping from small non-negative integers to an in-use marker with a capacity,
  \<open>allocate\<close> as returning the smallest unused non-negative integer (first fit) and
  failing when the identifier space is full, and \<open>release\<close> as marking the identifier
  free, a no-op when it is free already or unknown. The failure is the negative errno
  that \<open>get_idr\<close> tests for. The mutex around both calls has no effect on a sequential
  run and is left out.
\<close>

record idr =
  idr_cap :: nat
  idr_used :: "int set"

definition idr_alloc :: "idr \<Rightarrow> int \<times> idr" where
  "idr_alloc idr =
     (case find (\<lambda>i. i \<notin> idr_used idr) (map int [0..<idr_cap idr]) of
        None \<Rightarrow> (- ENOSPC, idr)
      | Some i \<Rightarrow> (i, idr\<lparr>idr_used := insert i (idr_used idr)\<rparr>))"

definition idr_remove :: "idr \<Rightarrow> int \<Rightarrow> idr" where
  "idr_remove idr i = idr\<lparr>idr_used := idr_used idr - {i}\<rparr>"

text \<open>
  \<open>get_idr\<close> writes the identifier through \<open>int *id\<close> only on success: the second
  argument is the value at \<open>*id\<close> before the call, the result is the status, the
  value at \<open>*id\<close> after the call and the allocator after the call.
\<close>

definition get_idr :: "idr \<Rightarrow> int \<Rightarrow> int \<times> int \<times> idr" where
  "get_idr idr id0 =
     (let (ret, idr') = idr_alloc idr
      in if ret < 0 then (ret, id0, idr') else (0, ret, idr'))"

definition release_idr :: "idr \<Rightarrow> int \<Rightarrow> idr" where
  "release_idr idr i = idr_remove idr i"

subsection \<open>The kernel state around the driver\<close>

text \<open>
  Modelled from the spec: the thermal registry (\<open>thermal_cooling_device_register\<close>,
  \<open>thermal_cooling_device_unregister\<close>) is an external collaborator, given by the spec
  at its boundary only: \<open>publish(name, context, ops) -> handle | error\<close> and
  \<open>unpublish(handle)\<close>. An entry keeps the name and the context pointer; the callback
  table is always \<open>gpufreq_cooling_ops\<close>. Whether a publication succeeds is the
  registry's decision, so the pointer it returns is an argument: \<open>None\<close> is the
  \<open>NULL\<close> the driver tests for.

  The state holds the two globals of the file (\<open>gpufreq_idr\<close>, \<open>gpu_freq_callback\<close>),
  the device structures that are allocated (\<open>kfree\<close> removes one) and the registry.
\<close>

record thermal_cooling_device =
  cdev_type :: string
  devdata :: addr

record 'hw kstate =
  gpufreq_idr :: idr
  gpu_freq_callback :: "('hw \<Rightarrow> c_uint) option"
  kmem :: "addr \<rightharpoonup> 'hw gpufreq_cooling_device"
  thermal_cdev :: "addr \<rightharpoonup> thermal_cooling_device"

definition kfree :: "addr \<Rightarrow> 'hw kstate \<Rightarrow> 'hw kstate" where
  "kfree p st = st\<lparr>kmem := (kmem st)(p := None)\<rparr>"

definition thermal_cooling_device_register ::
  "addr option \<Rightarrow> string \<Rightarrow> addr \<Rightarrow> 'hw kstate \<Rightarrow> addr option \<times> 'hw kstate" where
  "thermal_cooling_device_register published name data st =
     (case published of
        None \<Rightarrow> (None, st)
      | Some c \<Rightarrow>
          (Some c, st\<lparr>thermal_cdev := (thermal_cdev st)(c \<mapsto> \<lparr>cdev_type = name, devdata = data\<rparr>)\<rparr>))"

definition thermal_cooling_device_unregister ::
  "addr option \<Rightarrow> 'hw kstate \<Rightarrow> 'hw kstate" where
  "thermal_cooling_device_unregister cdev st =
     (case cdev of
        None \<Rightarrow> st
      | Some c \<Rightarrow> st\<lparr>thermal_cdev := (thermal_cdev st)(c := None)\<rparr>)"

subsection \<open>Device names\<close>

text \<open>
  \<open>snprintf (dev_name, sizeof (dev_name), "thermal-gpufreq-%d", id)\<close>: the decimal
  digits of the identifier after the prefix, cut to \<open>sizeof (dev_name) - 1\<close> characters.
  \<open>THERMAL_NAME_LENGTH\<close> is a constant of \<open>linux/thermal.h\<close>, a header outside the driver
  file: it is the first argument of \<open>gpufreq_cooling_register\<close> below. \<open>dev_name_of\<close> is
  the name that a device with a given identifier is registered under.
\<close>

function dec_nat :: "nat \<Rightarrow> string" where
  "dec_nat n =
     (if n < 10 then [''0123456789'' ! n]
      else dec_nat (n div 10) @ [''0123456789'' ! (n mod 10)])"
  by pat_completeness auto
termination
  by (relation "measure (\<lambda>n. n)") auto

declare dec_nat.simps [simp del]

definition fmt_d :: "int \<Rightarrow> string" where
  "fmt_d i = (if i < 0 then CHR ''-'' # dec_nat (nat (- i)) else dec_nat (nat i))"

definition snprintf :: "nat \<Rightarrow> string \<Rightarrow> string" where
  "snprintf len s = take (len - 1) s"

definition dev_name_of :: "nat \<Rightarrow> int \<Rightarrow> string" where
  "dev_name_of len i = snprintf len (''thermal-gpufreq-'' @ fmt_d i)"

subsection \<open>Allocation, registration and removal of a device\<close>

text \<open>
  \<open>gpufreq_cooling_alloc\<close>: \<open>kzalloc\<close> belongs to the kernel's allocator; the address
  it returns is an argument (\<open>None\<close> when it fails). The new structure is all zero:
  every callback is \<open>NULL\<close>. \<open>ERR_PTR (-ENOMEM)\<close> is the left summand.
\<close>

definition ENOMEM :: int where
  "ENOMEM = 12"

definition zeroed_dev :: "'hw gpufreq_cooling_device" where
  "zeroed_dev =
     \<lparr>id_dev = 0, cool_dev = None, gpufreq_state = 0,
      get_gpu_max_level = None, get_gpu_current_max_level = None,
      set_gpu_freq_idx = None\<rparr>"

definition gpufreq_cooling_alloc ::
  "addr option \<Rightarrow> 'hw kstate \<Rightarrow> (int + addr) \<times> 'hw kstate" where
  "gpufreq_cooling_alloc kzalloc st =
     (case kzalloc of
        None \<Rightarrow> (Inl (- ENOMEM), st)
      | Some gcdev \<Rightarrow> (Inr gcdev, st\<lparr>kmem := (kmem st)(gcdev \<mapsto> zeroed_dev)\<rparr>))"

text \<open>
  \<open>gpufreq_cooling_register\<close>: the arguments are \<open>THERMAL_NAME_LENGTH\<close>, the pointer
  the registry returns in this call, the pointer \<open>gpufreq_dev\<close> and the state. The
  result is \<open>None\<close> when \<open>gpufreq_dev\<close> does not point to an allocated device (the C
  code then has no defined behaviour), else the status and the state after the call.
  Both failure paths call \<open>kfree (gpufreq_dev)\<close>.
\<close>

definition gpufreq_cooling_register ::
  "nat \<Rightarrow> addr option \<Rightarrow> addr \<Rightarrow> 'hw kstate \<Rightarrow> (int \<times> 'hw kstate) option" where
  "gpufreq_cooling_register name_length published gpufreq_dev st =
     (case kmem st gpufreq_dev of
        None \<Rightarrow> None
      | Some d \<Rightarrow>
          (let (ret, new_id, idr') = get_idr (gpufreq_idr st) (id_dev d);
               d1 = d\<lparr>id_dev := new_id\<rparr>;
               st1 = st\<lparr>gpufreq_idr := idr', kmem := (kmem st)(gpufreq_dev \<mapsto> d1)\<rparr>
           in if ret \<noteq> 0 then Some (- EINVAL, kfree gpufreq_dev st1)
              else
                (let dev_name = snprintf name_length (''thermal-gpufreq-'' @ fmt_d (id_dev d1));
                     (cool, st2) =
                        thermal_cooling_device_register published dev_name gpufreq_dev st1
                 in case cool of
                      None \<Rightarrow>
                        (let st3 = st2\<lparr>gpufreq_idr :=
                                         release_idr (gpufreq_idr st2) (id_dev d1)\<rparr>
                         in Some (- EINVAL, kfree gpufreq_dev st3))
                    | Some c \<Rightarrow>
                        (let d2 = d1\<lparr>cool_dev := Some c, gpufreq_state := 0\<rparr>
                         in Some (0, st2\<lparr>kmem := (kmem st2)(gpufreq_dev \<mapsto> d2)\<rparr>)))))"

text \<open>
  \<open>gpufreq_cooling_unregister\<close>: nothing happens for \<open>NULL\<close>. The result is \<open>None\<close>
  when \<open>cdev\<close> is not an entry of the registry or its \<open>devdata\<close> does not point to an
  allocated device.
\<close>

definition gpufreq_cooling_unregister ::
  "addr option \<Rightarrow> 'hw kstate \<Rightarrow> 'hw kstate option" where
  "gpufreq_cooling_unregister cdev st =
     (case cdev of
        None \<Rightarrow> Some st
      | Some c \<Rightarrow>
          (case thermal_cdev st c of
             None \<Rightarrow> None
           | Some entry \<Rightarrow>
               (case kmem st (devdata entry) of
                  None \<Rightarrow> None
                | Some gpufreq_dev \<Rightarrow>
                    (let st1 = thermal_cooling_device_unregister (cool_dev gpufreq_dev) st;
                         st2 = st1\<lparr>gpufreq_idr :=
                                     release_idr (gpufreq_idr st1) (id_dev gpufreq_dev)\<rparr>
                     in Some (kfree (devdata entry) st2)))))"

subsection \<open>The frequency callback slot\<close>

text \<open>\<open>register_gpu_freq_info\<close> writes the global only for a pointer that is not \<open>NULL\<close>.\<close>

definition register_gpu_freq_info ::
  "('hw \<Rightarrow> c_uint) option \<Rightarrow> 'hw kstate \<Rightarrow> int \<times> 'hw kstate" where
  "register_gpu_freq_info fun_ptr st =
     (case fun_ptr of
        Some f \<Rightarrow> (0, st\<lparr>gpu_freq_callback := Some f\<rparr>)
      | None \<Rightarrow> (0, st))"

text \<open>The state at load time: no identifier in use, the slot empty, nothing allocated.\<close>

definition init_state :: "nat \<Rightarrow> 'hw kstate" where
  "init_state cap =
     \<lparr>gpufreq_idr = \<lparr>idr_cap = cap, idr_used = {}\<rparr>,
      gpu_freq_callback = None,
      kmem = Map.empty,
      thermal_cdev = Map.empty\<rparr>"

subsection \<open>States of the scenarios\<close>

text \<open>
  Three devices allocated at the addresses 1, 2 and 3 over an allocator with room for two
  identifiers, and the same state with both identifiers in use.
\<close>

definition three_devs :: "'hw kstate" where
  "three_devs =
     snd (gpufreq_cooling_alloc (Some 3)
       (snd (gpufreq_cooling_alloc (Some 2)
         (snd (gpufreq_cooling_alloc (Some 1) (init_state 2))))))"

definition exhausted_state :: "'hw kstate" where
  "exhausted_state = three_devs\<lparr>gpufreq_idr := \<lparr>idr_cap = 2, idr_used = {0, 1}\<rparr>\<rparr>"

section \<open>Word arithmetic of the inversion\<close>

text \<open>
  The value \<open>(max_state - 1) - temp\<close> of two converted numbers, read as an unsigned
  number, is their difference modulo \<open>2 ^ w\<close>.
\<close>

lemma uint_inversion:
  "uint ((word_of_int m :: 'ul::len word) - 1 - word_of_int l)
     = (m - 1 - l) mod 2 ^ LENGTH('ul)"
proof -
  have "(word_of_int m :: 'ul word) - 1 - word_of_int l = word_of_int (m - 1 - l)"
    by simp
  then show ?thesis by (simp only: uint_word_of_int)
qed

lemma word_of_int_take_bit_wider:
  "32 \<le> n \<Longrightarrow> (word_of_int (take_bit n k) :: 32 word) = word_of_int k"
  by (simp add: word_of_int_eq_iff min_def)

text \<open>
  Converting \<open>max_state - 1\<close> to \<open>unsigned int\<close> gives the number minus one, as an
  \<open>unsigned int\<close>, when \<open>unsigned long\<close> is no narrower.
\<close>

lemma ucast_level:
  assumes "32 \<le> LENGTH('ul::len)"
  shows "(ucast ((word_of_int m :: 'ul word) - 1) :: 32 word) = word_of_int (m - 1)"
proof -
  have "(word_of_int m :: 'ul word) - 1 = word_of_int (m - 1)"
    by simp
  then have "(ucast ((word_of_int m :: 'ul word) - 1) :: 32 word)
               = word_of_int (take_bit LENGTH('ul) (m - 1))"
    by (simp only: unsigned_of_int) simp
  also have "\<dots> = word_of_int (m - 1)"
    using assms by (rule word_of_int_take_bit_wider)
  finally show ?thesis .
qed

lemma uint_neq_minus_one:
  "(s :: 'ul::len word) \<noteq> - 1 \<Longrightarrow> uint s < 2 ^ LENGTH('ul) - 1"
proof -
  assume "s \<noteq> - 1"
  then have "uint s \<noteq> uint (- 1 :: 'ul word)" by (simp add: word_uint_eq_iff)
  then have "uint s \<noteq> 2 ^ LENGTH('ul) - 1" by (simp add: uint_word_ariths zmod_minus1)
  then show ?thesis using uint_bounded [of s] by linarith
qed

lemma level_le_max:
  "(M :: 'ul::len word) \<noteq> 0 \<Longrightarrow> M - 1 \<le> M"
proof -
  assume "M \<noteq> 0"
  then have "uint M \<noteq> 0" by (simp add: word_uint_eq_iff)
  moreover have "0 \<le> uint M" by simp
  ultimately have "1 \<le> uint M" by linarith
  then show ?thesis by (simp add: word_le_def uint_sub_if')
qed

text \<open>
  A state above \<open>max_state\<close> other than the largest word gives a wrapped level above
  \<open>max_state\<close>.
\<close>

lemma wrapped_level_gt_max:
  assumes "(M :: 'ul::len word) < s" and "s \<noteq> - 1"
  shows "\<not> (M - 1 - s \<le> M)"
proof -
  have s: "uint s < 2 ^ LENGTH('ul) - 1" using assms(2) by (rule uint_neq_minus_one)
  have ms: "uint M < uint s" using assms(1) by (simp add: word_less_def)
  have s0: "0 \<le> uint s" by (rule uint_nonnegative)
  have "uint M < uint (M - 1 - s)"
  proof (cases "M = 0")
    case True
    then have "uint (M - 1) = 2 ^ LENGTH('ul) - 1" and "uint M = 0"
      by (simp_all add: uint_word_ariths zmod_minus1)
    then show ?thesis using s s0 by (simp add: uint_sub_if' [of "M - 1" s])
  next
    case False
    then have "uint M \<noteq> 0" by (simp add: word_uint_eq_iff)
    then have "1 \<le> uint M" using uint_nonnegative [of M] by linarith
    then have "uint (M - 1) = uint M - 1" by (simp add: uint_sub_if')
    then show ?thesis using s ms by (simp add: uint_sub_if' [of "M - 1" s])
  qed
  then show ?thesis by (simp add: word_le_def)
qed

section \<open>The callbacks: maximum state, current state, requested state\<close>

text \<open>
  Claim C6. \<open>gpufreq_get_max_state\<close> returns status 0 for every device. Without
  \<open>get_gpu_max_level\<close> the output state is the value the caller left there; with it, the
  output state is the result of the callback (converted to \<open>unsigned long\<close>). Every
  device is of one of the two forms, so the statement has no side condition.
\<close>

theorem get_max_state_soft:
  "gpufreq_get_max_state (d\<lparr>get_gpu_max_level := None\<rparr>) hw st = (0, st)
   \<and> gpufreq_get_max_state (d\<lparr>get_gpu_max_level := Some f\<rparr>) hw st
       = (0, word_of_int (f hw))
   \<and> fst (gpufreq_get_max_state d hw st) = 0"
  by (simp add: gpufreq_get_max_state_def split: option.split)

theorem get_max_state_soft_witness:
  "gpufreq_get_max_state (zeroed_dev :: unit gpufreq_cooling_device) () (7 :: 64 word) = (0, 7)
   \<and> gpufreq_get_max_state scenario_dev [] (7 :: 64 word) = (0, 4)"
  using get_max_state_soft [where d = zeroed_dev and hw = "()" and st = "7 :: 64 word"]
    get_max_state_soft [where d = scenario_dev and f = "\<lambda>_. 4" and hw = "[]"
      and st = "7 :: 64 word"]
  by (simp add: zeroed_dev_def scenario_dev_def)

text \<open>
  Claim C1. For a device whose \<open>get_gpu_max_level\<close> returns \<open>M\<close> and whose
  \<open>get_gpu_current_max_level\<close> returns \<open>L\<close>, \<open>gpufreq_get_cur_state\<close> returns
  status 0 and the state \<open>(M - 1) - L\<close>, computed on \<open>unsigned long\<close>: read as a number
  it is \<open>(M - 1 - L) mod 2 ^ w\<close>, and \<open>M - 1 - L\<close> itself when \<open>0 \<le> L < M \<le> 2 ^ w\<close>.
  With \<open>M = 4\<close> and \<open>L = 1\<close> the maximum state is 4 and the current state is 2.
\<close>

theorem get_cur_state_inversion:
  assumes "get_gpu_max_level d = Some fm" and "get_gpu_current_max_level d = Some fl"
  shows "gpufreq_get_cur_state d hw st
           = (0, (word_of_int (fm hw) - 1) - word_of_int (fl hw) :: 'ul::len word)
         \<and> uint (snd (gpufreq_get_cur_state d hw st :: int \<times> 'ul word))
             = (fm hw - 1 - fl hw) mod 2 ^ LENGTH('ul)
         \<and> (0 \<le> fl hw \<and> fl hw < fm hw \<and> fm hw \<le> 2 ^ LENGTH('ul) \<longrightarrow>
              uint (snd (gpufreq_get_cur_state d hw st :: int \<times> 'ul word))
                = fm hw - 1 - fl hw)
         \<and> gpufreq_get_max_state scenario_dev hw' st = (0, 4)
         \<and> gpufreq_get_cur_state scenario_dev hw' st = (0, 2)"
proof -
  let ?m = "fm hw" and ?l = "fl hw"
  have r: "gpufreq_get_cur_state d hw st
             = (0, (word_of_int ?m - 1) - word_of_int ?l :: 'ul word)"
    using assms by (simp add: gpufreq_get_cur_state_def gpufreq_get_max_state_def)
  have u: "uint ((word_of_int ?m :: 'ul word) - 1 - word_of_int ?l)
             = (?m - 1 - ?l) mod 2 ^ LENGTH('ul)"
    by (rule uint_inversion)
  have plain: "uint ((word_of_int ?m :: 'ul word) - 1 - word_of_int ?l) = ?m - 1 - ?l"
    if "0 \<le> ?l" and "?l < ?m" and "?m \<le> 2 ^ LENGTH('ul)"
  proof -
    have "(?m - 1 - ?l) mod 2 ^ LENGTH('ul) = ?m - 1 - ?l"
      using that by (intro mod_pos_pos_trivial) simp_all
    with u show ?thesis by simp
  qed
  have s1: "gpufreq_get_max_state scenario_dev hw' st = (0, 4)"
    by (simp add: gpufreq_get_max_state_def scenario_dev_def)
  have s2: "gpufreq_get_cur_state scenario_dev hw' st = (0, 2)"
    by (simp add: gpufreq_get_cur_state_def gpufreq_get_max_state_def scenario_dev_def)
  show ?thesis unfolding r snd_conv using u plain s1 s2 by blast
qed

theorem get_cur_state_inversion_witness:
  "gpufreq_get_max_state scenario_dev [] (0 :: 64 word) = (0, 4)
   \<and> gpufreq_get_cur_state scenario_dev [] (0 :: 64 word) = (0, 2)
   \<and> uint (snd (gpufreq_get_cur_state scenario_dev [] (0 :: 64 word))) = 4 - 1 - 1"
  using get_cur_state_inversion [of scenario_dev "\<lambda>_. 4" "\<lambda>_. 1" "[]" "0 :: 64 word" "[]"]
  by (simp add: scenario_dev_def)

text \<open>
  Claim C9. The stored \<open>gpufreq_state\<close> is not fed back into the queries: two devices
  that differ in that field only give the same status and the same output state in
  \<open>gpufreq_get_max_state\<close> and in \<open>gpufreq_get_cur_state\<close>.
\<close>

theorem requested_state_not_fed_back:
  "gpufreq_get_max_state (d\<lparr>gpufreq_state := x\<rparr>) hw st = gpufreq_get_max_state d hw st
   \<and> gpufreq_get_cur_state (d\<lparr>gpufreq_state := x\<rparr>) hw st = gpufreq_get_cur_state d hw st"
  by (simp add: gpufreq_get_cur_state_def gpufreq_get_max_state_def)

theorem requested_state_not_fed_back_witness:
  "gpufreq_get_max_state (scenario_dev\<lparr>gpufreq_state := 3\<rparr>) [] (0 :: 64 word) = (0, 4)
   \<and> gpufreq_get_cur_state (scenario_dev\<lparr>gpufreq_state := 3\<rparr>) [] (0 :: 64 word) = (0, 2)
   \<and> gpufreq_get_cur_state
        (fst (snd (gpufreq_set_cur_state scenario_dev [] (3 :: 64 word)))) [] (0 :: 64 word)
       = gpufreq_get_cur_state scenario_dev [] (0 :: 64 word)"
  using requested_state_not_fed_back [where d = scenario_dev and x = 3 and hw = "[]"
      and st = "0 :: 64 word"]
  by (simp add: gpufreq_get_cur_state_def gpufreq_get_max_state_def gpufreq_set_cur_state_def
      scenario_dev_def)

text \<open>
  Claim C10. Without \<open>get_gpu_max_level\<close> but with \<open>get_gpu_current_max_level\<close>
  returning \<open>L\<close>, \<open>gpufreq_get_cur_state\<close> still returns status 0: \<open>max_state\<close> is 0
  and the state is \<open>(0 - 1) - L\<close> on \<open>unsigned long\<close>, that is \<open>(2 ^ w - 1 - L) mod 2 ^ w\<close>;
  for a level \<open>0 \<le> L < 2 ^ w\<close> this is \<open>2 ^ w - 1 - L\<close>, whatever the caller left in the
  output.
\<close>

theorem get_cur_state_without_max:
  assumes "get_gpu_max_level d = None" and "get_gpu_current_max_level d = Some fl"
  shows "gpufreq_get_cur_state d hw st = (0, (0 - 1) - word_of_int (fl hw) :: 'ul::len word)
         \<and> uint (snd (gpufreq_get_cur_state d hw st :: int \<times> 'ul word))
             = (2 ^ LENGTH('ul) - 1 - fl hw) mod 2 ^ LENGTH('ul)
         \<and> (0 \<le> fl hw \<and> fl hw < 2 ^ LENGTH('ul) \<longrightarrow>
              uint (snd (gpufreq_get_cur_state d hw st :: int \<times> 'ul word))
                = 2 ^ LENGTH('ul) - 1 - fl hw)"
proof -
  let ?l = "fl hw"
  have r: "gpufreq_get_cur_state d hw st = (0, (0 - 1) - word_of_int ?l :: 'ul word)"
    using assms by (simp add: gpufreq_get_cur_state_def gpufreq_get_max_state_def)
  have "uint ((word_of_int 0 :: 'ul word) - 1 - word_of_int ?l)
          = (0 - 1 - ?l) mod 2 ^ LENGTH('ul)"
    by (rule uint_inversion)
  moreover have "(2 ^ LENGTH('ul) - 1 - ?l) mod 2 ^ LENGTH('ul)
                   = (- 1 - ?l) mod (2 ^ LENGTH('ul) :: int)"
    using mod_add_self1 [of "2 ^ LENGTH('ul)" "- 1 - ?l"] by (simp add: algebra_simps)
  ultimately have u: "uint ((0 :: 'ul word) - 1 - word_of_int ?l)
                        = (2 ^ LENGTH('ul) - 1 - ?l) mod 2 ^ LENGTH('ul)"
    by simp
  have big: "uint ((0 :: 'ul word) - 1 - word_of_int ?l) = 2 ^ LENGTH('ul) - 1 - ?l"
    if "0 \<le> ?l" and "?l < 2 ^ LENGTH('ul)"
  proof -
    have "(2 ^ LENGTH('ul) - 1 - ?l) mod 2 ^ LENGTH('ul) = 2 ^ LENGTH('ul) - 1 - ?l"
      using that by (intro mod_pos_pos_trivial) simp_all
    with u show ?thesis by simp
  qed
  show ?thesis unfolding r snd_conv using u big by blast
qed

theorem get_cur_state_without_max_witness:
  "gpufreq_get_cur_state (scenario_dev\<lparr>get_gpu_max_level := None\<rparr>) [] (5 :: 64 word)
     = (0, 18446744073709551614)
   \<and> uint (snd (gpufreq_get_cur_state (scenario_dev\<lparr>get_gpu_max_level := None\<rparr>) []
        (5 :: 64 word))) = 2 ^ 64 - 1 - 1"
  using get_cur_state_without_max
    [of "scenario_dev\<lparr>get_gpu_max_level := None\<rparr>" "\<lambda>_. 1" "[]" "5 :: 64 word"]
  by (simp add: scenario_dev_def)

text \<open>
  Claim C5, as the code has it. For every argument \<open>s\<close> and every device, with or
  without \<open>set_gpu_freq_idx\<close> and whatever the computed level, \<open>gpufreq_set_cur_state\<close>
  returns status 0 and the device after the call differs from the one before in
  \<open>gpufreq_state\<close> only, which holds the argument converted to the \<open>unsigned int\<close>
  field: \<open>s mod 2 ^ 32\<close>, which is \<open>s\<close> for every \<open>s < 2 ^ 32\<close>. No test precedes the
  store.
\<close>

theorem set_cur_state_always_ok:
  "fst (gpufreq_set_cur_state d hw s) = 0
   \<and> fst (snd (gpufreq_set_cur_state d hw s)) = d\<lparr>gpufreq_state := ucast s\<rparr>
   \<and> unat (gpufreq_state (fst (snd (gpufreq_set_cur_state d hw s)))) = unat s mod 2 ^ 32
   \<and> (unat s < 2 ^ 32 \<longrightarrow>
        unat (gpufreq_state (fst (snd (gpufreq_set_cur_state d hw s)))) = unat s)"
  by (simp add: gpufreq_set_cur_state_def gpufreq_get_max_state_def Let_def
      unsigned_ucast_eq take_bit_eq_mod split: option.split)

theorem set_cur_state_always_ok_witness:
  "unat (9 :: 64 word) < 2 ^ 32
   \<and> gpufreq_set_cur_state (zeroed_dev :: unit gpufreq_cooling_device) () (9 :: 64 word)
       = (0, zeroed_dev\<lparr>gpufreq_state := 9\<rparr>, ())
   \<and> gpufreq_set_cur_state scenario_dev [] (9 :: 64 word)
       = (0, scenario_dev\<lparr>gpufreq_state := 9\<rparr>, [])"
  using set_cur_state_always_ok [of "zeroed_dev :: unit gpufreq_cooling_device" "()" "9 :: 64 word"]
  by (simp add: gpufreq_set_cur_state_def gpufreq_get_max_state_def zeroed_dev_def
      scenario_dev_def)

text \<open>
  C5 as the claim words it has the field equal to \<open>s\<close> for every \<open>s\<close>. With a 64-bit
  \<open>unsigned long\<close> the state \<open>2 ^ 32 + 3\<close> is accepted with status 0, and the 32-bit field
  then holds 3, not \<open>2 ^ 32 + 3\<close>.
\<close>

theorem set_cur_state_always_ok_counterexample:
  "fst (gpufreq_set_cur_state scenario_dev [] (4294967299 :: 64 word)) = 0
   \<and> gpufreq_state (fst (snd (gpufreq_set_cur_state scenario_dev [] (4294967299 :: 64 word)))) = 3
   \<and> unat (gpufreq_state
         (fst (snd (gpufreq_set_cur_state scenario_dev [] (4294967299 :: 64 word))))) = 3
   \<and> unat (4294967299 :: 64 word) = 4294967299"
  by (simp add: gpufreq_set_cur_state_def gpufreq_get_max_state_def scenario_dev_def)

text \<open>
  Claim C2, as the code has it. Let \<open>M\<close> be the result of \<open>get_gpu_max_level\<close> as an
  \<open>unsigned long\<close>, and let \<open>set_gpu_freq_idx\<close> be set. The level \<open>M - 1 - s\<close> wraps
  modulo \<open>2 ^ w\<close>; a level above \<open>M\<close> is dropped without a call. So no call is made for
  \<open>M < s < 2 ^ w - 1\<close>; the state 0 calls \<open>set_gpu_freq_idx\<close> with \<open>M - 1\<close> (converted
  to \<open>unsigned int\<close>) when \<open>M \<noteq> 0\<close>; the state \<open>M - 1\<close> calls it with 0. The hardware
  state after the call is \<open>g level hw\<close> for a call with \<open>level\<close> and \<open>hw\<close> for no call,
  for every driver \<open>g\<close>; the witness takes the driver that records its calls.
\<close>

theorem set_cur_state_bounds:
  assumes "get_gpu_max_level d = Some fm" and "set_gpu_freq_idx d = Some g"
  shows "(word_of_int (fm hw) < s \<and> s \<noteq> - 1 \<longrightarrow>
            snd (snd (gpufreq_set_cur_state d hw (s :: 'ul::len word))) = hw)
         \<and> (\<not> word_of_int (fm hw) - 1 - s \<le> word_of_int (fm hw) \<longrightarrow>
            snd (snd (gpufreq_set_cur_state d hw s)) = hw)
         \<and> ((word_of_int (fm hw) :: 'ul word) \<noteq> 0 \<longrightarrow>
            snd (snd (gpufreq_set_cur_state d hw (0 :: 'ul word)))
              = g (ucast (word_of_int (fm hw) - 1 :: 'ul word)) hw)
         \<and> ((word_of_int (fm hw) :: 'ul word) \<noteq> 0 \<and> 32 \<le> LENGTH('ul) \<longrightarrow>
            snd (snd (gpufreq_set_cur_state d hw (0 :: 'ul word)))
              = g (word_of_int (fm hw - 1)) hw)
         \<and> snd (snd (gpufreq_set_cur_state d hw (word_of_int (fm hw) - 1 :: 'ul word)))
             = g 0 hw"
proof -
  let ?M = "word_of_int (fm hw) :: 'ul word"
  have run: "snd (snd (gpufreq_set_cur_state d hw x))
               = (if ?M - 1 - x \<le> ?M then g (ucast (?M - 1 - x)) hw else hw)"
    for x :: "'ul word"
    using assms by (simp add: gpufreq_set_cur_state_def gpufreq_get_max_state_def)
  have a: "snd (snd (gpufreq_set_cur_state d hw s)) = hw" if "?M < s" and "s \<noteq> - 1"
    using wrapped_level_gt_max [OF that] by (simp add: run)
  have b: "snd (snd (gpufreq_set_cur_state d hw s)) = hw" if "\<not> ?M - 1 - s \<le> ?M"
    using that by (simp add: run)
  have c: "snd (snd (gpufreq_set_cur_state d hw (0 :: 'ul word))) = g (ucast (?M - 1)) hw"
    if "?M \<noteq> 0"
    using level_le_max [OF that] by (simp add: run)
  have e: "snd (snd (gpufreq_set_cur_state d hw (0 :: 'ul word)))
             = g (word_of_int (fm hw - 1)) hw"
    if "?M \<noteq> 0" and "32 \<le> LENGTH('ul)"
    using c [OF that(1)] ucast_level [OF that(2), of "fm hw"] by simp
  have f: "snd (snd (gpufreq_set_cur_state d hw (?M - 1))) = g 0 hw"
    by (simp add: run)
  from a b c e f show ?thesis by blast
qed

theorem set_cur_state_bounds_witness:
  "(4 :: 64 word) < 7 \<and> (7 :: 64 word) \<noteq> - 1
   \<and> snd (snd (gpufreq_set_cur_state scenario_dev [] (7 :: 64 word))) = []
   \<and> snd (snd (gpufreq_set_cur_state scenario_dev [] (0 :: 64 word))) = [3]
   \<and> snd (snd (gpufreq_set_cur_state scenario_dev [] (3 :: 64 word))) = [0]"
  using set_cur_state_bounds [of scenario_dev "\<lambda>_. 4" log_request "[]" "7 :: 64 word"]
  by (simp add: scenario_dev_def log_request_def)

text \<open>
  The bounds of C2 as the claim words them fail at two inputs. With \<open>M = 4\<close> the state
  \<open>2 ^ 64 - 1\<close> is above \<open>M\<close>, yet \<open>4 - 1 - (2 ^ 64 - 1)\<close> wraps to 4, which passes
  \<open>state <= max_state\<close>: the callback is called with 4. With \<open>M = 0\<close> the state 0 gives
  the level \<open>2 ^ 64 - 1\<close>, which does not pass: the callback is not called.
\<close>

theorem set_cur_state_bounds_counterexample:
  "(4 :: 64 word) < 18446744073709551615
   \<and> snd (snd (gpufreq_set_cur_state scenario_dev [] (18446744073709551615 :: 64 word))) = [4]
   \<and> snd (snd (gpufreq_set_cur_state (scenario_dev\<lparr>get_gpu_max_level := Some (\<lambda>_. 0)\<rparr>) []
         (0 :: 64 word))) = []"
  by (simp add: gpufreq_set_cur_state_def gpufreq_get_max_state_def scenario_dev_def
      log_request_def)

section \<open>The frequency callback slot\<close>

text \<open>
  Claim C8. \<open>register_gpu_freq_info\<close> returns 0 for every argument. A pointer that is
  not \<open>NULL\<close> replaces the slot and changes nothing else; \<open>NULL\<close> leaves the whole state
  as it is, so a callback installed before is still the one a reader finds.
\<close>

theorem register_gpu_freq_info_slot:
  "fst (register_gpu_freq_info f st) = 0
   \<and> snd (register_gpu_freq_info (Some a) st) = st\<lparr>gpu_freq_callback := Some a\<rparr>
   \<and> snd (register_gpu_freq_info None st) = st
   \<and> gpu_freq_callback
        (snd (register_gpu_freq_info None (snd (register_gpu_freq_info (Some a) st)))) = Some a"
  by (simp add: register_gpu_freq_info_def split: option.split)

theorem register_gpu_freq_info_slot_witness:
  "register_gpu_freq_info None
     (snd (register_gpu_freq_info (Some (\<lambda>_ :: unit. 600)) (init_state 2)))
   = (0, (init_state 2)\<lparr>gpu_freq_callback := Some (\<lambda>_. 600)\<rparr>)"
  using register_gpu_freq_info_slot [where f = None and st = "init_state 2 :: unit kstate"
      and a = "\<lambda>_. 600"]
  by (simp add: register_gpu_freq_info_def)

section \<open>The allocator and the registration\<close>

subsection \<open>First fit\<close>

text \<open>
  \<open>idr_alloc\<close> returns the free identifier below which every identifier is in use, and
  fails exactly when every identifier of the allocator is in use.
\<close>

lemma find_first_fit:
  assumes "i < cap" and "int i \<notin> used" and "\<forall>j<i. int j \<in> used"
  shows "find (\<lambda>k. k \<notin> used) (map int [0..<cap]) = Some (int i)"
  using assms by (auto simp add: find_Some_iff intro!: exI [of _ i])

lemma find_exhausted:
  "(find (\<lambda>k. k \<notin> used) (map int [0..<cap]) = None) = (\<forall>i<cap. int i \<in> used)"
  by (auto simp add: find_None_iff)

lemma idr_alloc_first_fit:
  assumes "i < idr_cap r" and "int i \<notin> idr_used r" and "\<forall>j<i. int j \<in> idr_used r"
  shows "idr_alloc r = (int i, r\<lparr>idr_used := insert (int i) (idr_used r)\<rparr>)"
  using find_first_fit [OF assms] by (simp add: idr_alloc_def)

lemma idr_alloc_exhausted:
  assumes "\<forall>i<idr_cap r. int i \<in> idr_used r"
  shows "idr_alloc r = (- ENOSPC, r)"
  using assms by (simp add: idr_alloc_def find_exhausted [symmetric])

lemma idr_alloc_cases:
  "(idr_alloc r = (- ENOSPC, r) \<and> (\<forall>i<idr_cap r. int i \<in> idr_used r))
   \<or> (\<exists>i<idr_cap r. int i \<notin> idr_used r \<and> (\<forall>j<i. int j \<in> idr_used r)
         \<and> idr_alloc r = (int i, r\<lparr>idr_used := insert (int i) (idr_used r)\<rparr>))"
proof (cases "\<forall>i<idr_cap r. int i \<in> idr_used r")
  case True
  then show ?thesis by (simp add: idr_alloc_exhausted)
next
  case False
  then obtain k where k: "k < idr_cap r" "int k \<notin> idr_used r" by auto
  define i where "i = (LEAST k. k < idr_cap r \<and> int k \<notin> idr_used r)"
  have "i < idr_cap r \<and> int i \<notin> idr_used r"
    unfolding i_def using k
    by (intro LeastI [of "\<lambda>k. k < idr_cap r \<and> int k \<notin> idr_used r" k]) simp
  moreover have "\<forall>j<i. int j \<in> idr_used r"
  proof (intro allI impI)
    fix j assume "j < i"
    then have "\<not> (j < idr_cap r \<and> int j \<notin> idr_used r)"
      unfolding i_def by (rule not_less_Least)
    moreover have "j < idr_cap r"
      using \<open>j < i\<close> \<open>i < idr_cap r \<and> int i \<notin> idr_used r\<close> by simp
    ultimately show "int j \<in> idr_used r" by simp
  qed
  ultimately show ?thesis using idr_alloc_first_fit [of i r] by blast
qed

text \<open>The names of the identifiers 0 and 1 fit into 18 characters with the final NUL.\<close>

lemma fmt_d_0: "fmt_d 0 = ''0''"
  by (simp add: fmt_d_def dec_nat.simps [of 0])

lemma fmt_d_1: "fmt_d 1 = ''1''"
  by (simp add: fmt_d_def dec_nat.simps [of "Suc 0"])

lemma snprintf_fits: "length s < n \<Longrightarrow> snprintf n s = s"
  unfolding snprintf_def by (rule take_all) simp

lemma dev_name_0: "18 \<le> n \<Longrightarrow> dev_name_of n 0 = ''thermal-gpufreq-0''"
  using snprintf_fits [of "''thermal-gpufreq-0''" n] by (simp add: dev_name_of_def fmt_d_0)

lemma dev_name_1: "18 \<le> n \<Longrightarrow> dev_name_of n 1 = ''thermal-gpufreq-1''"
  using snprintf_fits [of "''thermal-gpufreq-1''" n] by (simp add: dev_name_of_def fmt_d_1)

text \<open>
  The state after a registration that finds the identifier \<open>i\<close>, for either answer of the
  registry, and the state after the removal of a registered device.
\<close>

lemma register_result:
  assumes "kmem st p = Some d" and "i < idr_cap (gpufreq_idr st)"
    and "int i \<notin> idr_used (gpufreq_idr st)"
    and "\<forall>j<i. int j \<in> idr_used (gpufreq_idr st)"
  shows "gpufreq_cooling_register n published p st =
           (case published of
              None \<Rightarrow> Some (- EINVAL, st\<lparr>kmem := (kmem st)(p := None)\<rparr>)
            | Some c \<Rightarrow>
                Some (0, st\<lparr>gpufreq_idr :=
                            (gpufreq_idr st)\<lparr>idr_used :=
                               insert (int i) (idr_used (gpufreq_idr st))\<rparr>,
                   kmem := (kmem st)(p \<mapsto>
                      d\<lparr>id_dev := int i, cool_dev := Some c, gpufreq_state := 0\<rparr>),
                   thermal_cdev := (thermal_cdev st)(c \<mapsto>
                      \<lparr>cdev_type = dev_name_of n (int i), devdata = p\<rparr>)\<rparr>))"
  using assms(1,3) idr_alloc_first_fit [OF assms(2,3,4)]
  by (simp add: gpufreq_cooling_register_def get_idr_def kfree_def release_idr_def
      idr_remove_def thermal_cooling_device_register_def dev_name_of_def split: option.split)

lemma unregister_result:
  assumes "thermal_cdev st c = Some e" and "kmem st (devdata e) = Some d"
  shows "gpufreq_cooling_unregister (Some c) st =
           Some (kfree (devdata e)
             ((thermal_cooling_device_unregister (cool_dev d) st)
                \<lparr>gpufreq_idr := idr_remove (gpufreq_idr st) (id_dev d)\<rparr>))"
  using assms
  by (simp add: gpufreq_cooling_unregister_def release_idr_def Let_def
      thermal_cooling_device_unregister_def split: option.split)

subsection \<open>Failure of the registration\<close>

text \<open>
  Claim C3, as the code has it. When every identifier is in use, \<open>gpufreq_cooling_register\<close>
  returns \<open>-EINVAL\<close>; the allocator, the registry and the callback slot are as before
  the call; and the device is freed by \<open>gpufreq_cooling_register\<close> itself: its address is
  no longer allocated, so the caller must neither use nor free it.
\<close>

theorem register_exhausted_frees_device:
  assumes "kmem st p = Some d"
    and "\<forall>i<idr_cap (gpufreq_idr st). int i \<in> idr_used (gpufreq_idr st)"
  shows "gpufreq_cooling_register n published p st = Some (- EINVAL, kfree p st)
         \<and> kmem (kfree p st) p = None
         \<and> gpufreq_idr (kfree p st) = gpufreq_idr st
         \<and> thermal_cdev (kfree p st) = thermal_cdev st
         \<and> gpu_freq_callback (kfree p st) = gpu_freq_callback st"
  using assms(1) idr_alloc_exhausted [OF assms(2)]
  by (simp add: gpufreq_cooling_register_def get_idr_def kfree_def ENOSPC_def)

theorem register_exhausted_frees_device_witness:
  "gpufreq_cooling_register 20 (Some 9) 2 (exhausted_state :: unit kstate)
     = Some (- EINVAL, kfree 2 exhausted_state)
   \<and> kmem (kfree 2 (exhausted_state :: unit kstate)) 2 = None
   \<and> gpufreq_idr (kfree 2 (exhausted_state :: unit kstate)) = \<lparr>idr_cap = 2, idr_used = {0, 1}\<rparr>"
  using register_exhausted_frees_device [of "exhausted_state :: unit kstate" 2 zeroed_dev 20 "Some 9"]
  by (simp add: exhausted_state_def three_devs_def gpufreq_cooling_alloc_def init_state_def
      kfree_def less_Suc_eq numeral_2_eq_2)

text \<open>
  C3 as the claim words it keeps the device with the caller. In the state with both
  identifiers in use the device at address 1 is allocated before the call and gone after it.
\<close>

theorem register_exhausted_counterexample:
  "kmem (exhausted_state :: unit kstate) 1 = Some zeroed_dev
   \<and> gpufreq_cooling_register 20 (Some 9) 1 (exhausted_state :: unit kstate)
       = Some (- EINVAL, kfree 1 exhausted_state)
   \<and> kmem (kfree 1 (exhausted_state :: unit kstate)) 1 = None"
  by (simp add: exhausted_state_def three_devs_def gpufreq_cooling_alloc_def init_state_def
      kfree_def gpufreq_cooling_register_def get_idr_def idr_alloc_def ENOSPC_def
      upt_conv_Cons)

text \<open>
  Claim C4. When an identifier is free and the registry returns \<open>NULL\<close>,
  \<open>gpufreq_cooling_register\<close> returns \<open>-EINVAL\<close>; the identifier that \<open>idr_alloc\<close>
  handed out (one that was free, and in use right after the allocation) is released
  again, which leaves the allocator as it was before the call; the registry has no new
  entry and the device is freed.
\<close>

theorem register_publish_failure:
  assumes "kmem st p = Some d" and "k < idr_cap (gpufreq_idr st)"
    and "int k \<notin> idr_used (gpufreq_idr st)"
  shows "gpufreq_cooling_register n None p st = Some (- EINVAL, kfree p st)
         \<and> gpufreq_idr (kfree p st) = gpufreq_idr st
         \<and> thermal_cdev (kfree p st) = thermal_cdev st
         \<and> kmem (kfree p st) p = None
         \<and> 0 \<le> fst (idr_alloc (gpufreq_idr st))
         \<and> fst (idr_alloc (gpufreq_idr st)) \<notin> idr_used (gpufreq_idr st)
         \<and> fst (idr_alloc (gpufreq_idr st)) \<in> idr_used (snd (idr_alloc (gpufreq_idr st)))
         \<and> release_idr (snd (idr_alloc (gpufreq_idr st))) (fst (idr_alloc (gpufreq_idr st)))
             = gpufreq_idr st"
proof -
  from idr_alloc_cases [of "gpufreq_idr st"] assms(2,3)
  obtain i where i: "i < idr_cap (gpufreq_idr st)" "int i \<notin> idr_used (gpufreq_idr st)"
      "\<forall>j<i. int j \<in> idr_used (gpufreq_idr st)"
      "idr_alloc (gpufreq_idr st)
         = (int i, (gpufreq_idr st)\<lparr>idr_used := insert (int i) (idr_used (gpufreq_idr st))\<rparr>)"
    by blast
  have "gpufreq_cooling_register n None p st = Some (- EINVAL, kfree p st)"
    using register_result [OF assms(1) i(1,2,3), of n None] by (simp add: kfree_def)
  then show ?thesis using i(2,4)
    by (simp add: kfree_def release_idr_def idr_remove_def)
qed

theorem register_publish_failure_witness:
  "gpufreq_cooling_register 20 None 1 (three_devs :: unit kstate)
     = Some (- EINVAL, kfree 1 three_devs)
   \<and> gpufreq_idr (kfree 1 (three_devs :: unit kstate)) = \<lparr>idr_cap = 2, idr_used = {}\<rparr>
   \<and> kmem (kfree 1 (three_devs :: unit kstate)) 1 = None"
  using register_publish_failure [of "three_devs :: unit kstate" 1 zeroed_dev 0 20]
  by (simp add: three_devs_def gpufreq_cooling_alloc_def init_state_def kfree_def)

subsection \<open>Names and reuse of identifiers\<close>

text \<open>
  Claim C7. The allocator is first fit, and a released identifier can be handed out again
  at once. From a state with no identifier in use, registering two devices gives the names
  \<open>thermal-gpufreq-0\<close> and \<open>thermal-gpufreq-1\<close>; unregistering the first releases the
  identifier 0, and the third device registered gets the identifier 0. In general
  \<open>idr_alloc\<close> returns the smallest identifier that is free, and after the release of
  \<open>k\<close>, with every smaller identifier in use, it returns \<open>k\<close>.
\<close>

theorem first_fit_reuse:
  assumes fresh: "idr_used (gpufreq_idr st) = {}" and cap: "2 \<le> idr_cap (gpufreq_idr st)"
    and len: "18 \<le> n"
    and d1: "kmem st p1 = Some d1" and d2: "kmem st p2 = Some d2" and d3: "kmem st p3 = Some d3"
    and ps: "p1 \<noteq> p2" "p1 \<noteq> p3" "p2 \<noteq> p3" and cs: "c1 \<noteq> c2"
  shows "(\<exists>s1 s2 s3 s4.
           gpufreq_cooling_register n (Some c1) p1 st = Some (0, s1)
         \<and> map_option id_dev (kmem s1 p1) = Some 0
         \<and> map_option cdev_type (thermal_cdev s1 c1) = Some ''thermal-gpufreq-0''
         \<and> gpufreq_cooling_register n (Some c2) p2 s1 = Some (0, s2)
         \<and> map_option id_dev (kmem s2 p2) = Some 1
         \<and> map_option cdev_type (thermal_cdev s2 c2) = Some ''thermal-gpufreq-1''
         \<and> idr_used (gpufreq_idr s2) = {0, 1}
         \<and> gpufreq_cooling_unregister (Some c1) s2 = Some s3
         \<and> idr_used (gpufreq_idr s3) = {1}
         \<and> gpufreq_cooling_register n (Some c3) p3 s3 = Some (0, s4)
         \<and> map_option id_dev (kmem s4 p3) = Some 0
         \<and> map_option cdev_type (thermal_cdev s4 c3) = Some ''thermal-gpufreq-0'')
       \<and> (k < idr_cap r \<and> int k \<notin> idr_used r \<and> (\<forall>j<k. int j \<in> idr_used r) \<longrightarrow>
            idr_alloc r = (int k, r\<lparr>idr_used := insert (int k) (idr_used r)\<rparr>))
       \<and> (k' < idr_cap r' \<and> (\<forall>j<k'. int j \<in> idr_used r') \<longrightarrow>
            idr_alloc (release_idr r' (int k'))
              = (int k', r'\<lparr>idr_used := insert (int k') (idr_used r')\<rparr>))"
proof -
  let ?r = "gpufreq_idr st"
  define s1 where "s1 = st\<lparr>gpufreq_idr := ?r\<lparr>idr_used := insert (int 0) (idr_used ?r)\<rparr>,
      kmem := (kmem st)(p1 \<mapsto>
        d1\<lparr>id_dev := int 0, cool_dev := Some c1, gpufreq_state := 0\<rparr>),
      thermal_cdev := (thermal_cdev st)(c1 \<mapsto>
        \<lparr>cdev_type = dev_name_of n (int 0), devdata = p1\<rparr>)\<rparr>"
  have r1: "gpufreq_cooling_register n (Some c1) p1 st = Some (0, s1)"
    using register_result [OF d1, of 0 n "Some c1"] fresh cap by (simp add: s1_def)
  have i1: "map_option id_dev (kmem s1 p1) = Some 0" by (simp add: s1_def)
  have n1: "map_option cdev_type (thermal_cdev s1 c1) = Some ''thermal-gpufreq-0''"
    using dev_name_0 [OF len] by (simp add: s1_def)
  let ?r1 = "gpufreq_idr s1"
  define s2 where "s2 = s1\<lparr>gpufreq_idr := ?r1\<lparr>idr_used := insert (int 1) (idr_used ?r1)\<rparr>,
      kmem := (kmem s1)(p2 \<mapsto>
        d2\<lparr>id_dev := int 1, cool_dev := Some c2, gpufreq_state := 0\<rparr>),
      thermal_cdev := (thermal_cdev s1)(c2 \<mapsto>
        \<lparr>cdev_type = dev_name_of n (int 1), devdata = p2\<rparr>)\<rparr>"
  have k2: "kmem s1 p2 = Some d2" using d2 ps by (simp add: s1_def)
  have r2: "gpufreq_cooling_register n (Some c2) p2 s1 = Some (0, s2)"
    using register_result [OF k2, of 1 n "Some c2"] fresh cap by (simp add: s1_def s2_def)
  have i2: "map_option id_dev (kmem s2 p2) = Some 1" by (simp add: s2_def)
  have n2: "map_option cdev_type (thermal_cdev s2 c2) = Some ''thermal-gpufreq-1''"
    using dev_name_1 [OF len] by (simp add: s2_def)
  have u2: "idr_used (gpufreq_idr s2) = {0, 1}"
    using fresh by (auto simp add: s1_def s2_def)
  define s3 where "s3 = kfree p1
      ((thermal_cooling_device_unregister (Some c1) s2)
         \<lparr>gpufreq_idr := idr_remove (gpufreq_idr s2) 0\<rparr>)"
  have e1: "thermal_cdev s2 c1 = Some \<lparr>cdev_type = dev_name_of n (int 0), devdata = p1\<rparr>"
    using cs by (simp add: s1_def s2_def)
  have k1: "kmem s2 p1 = Some (d1\<lparr>id_dev := int 0, cool_dev := Some c1, gpufreq_state := 0\<rparr>)"
    using ps by (simp add: s1_def s2_def)
  have r3: "gpufreq_cooling_unregister (Some c1) s2 = Some s3"
    using unregister_result [OF e1] k1 by (simp add: s3_def)
  have u3: "idr_used (gpufreq_idr s3) = {1}"
    using u2 by (simp add: s3_def kfree_def idr_remove_def)
  have cap3: "idr_cap (gpufreq_idr s3) = idr_cap ?r"
    by (simp add: s3_def kfree_def idr_remove_def s2_def s1_def)
  have k3: "kmem s3 p3 = Some d3"
    using d3 ps
    by (simp add: s3_def kfree_def thermal_cooling_device_unregister_def s2_def s1_def)
  define s4 where "s4 = s3\<lparr>gpufreq_idr :=
        (gpufreq_idr s3)\<lparr>idr_used := insert (int 0) (idr_used (gpufreq_idr s3))\<rparr>,
      kmem := (kmem s3)(p3 \<mapsto>
        d3\<lparr>id_dev := int 0, cool_dev := Some c3, gpufreq_state := 0\<rparr>),
      thermal_cdev := (thermal_cdev s3)(c3 \<mapsto>
        \<lparr>cdev_type = dev_name_of n (int 0), devdata = p3\<rparr>)\<rparr>"
  have r4: "gpufreq_cooling_register n (Some c3) p3 s3 = Some (0, s4)"
    using register_result [OF k3, of 0 n "Some c3"] u3 cap3 cap by (simp add: s4_def)
  have i4: "map_option id_dev (kmem s4 p3) = Some 0" by (simp add: s4_def)
  have n4: "map_option cdev_type (thermal_cdev s4 c3) = Some ''thermal-gpufreq-0''"
    using dev_name_0 [OF len] by (simp add: s4_def)
  from r1 i1 n1 r2 i2 n2 u2 r3 u3 r4 i4 n4 have scenario: "\<exists>s1 s2 s3 s4.
           gpufreq_cooling_register n (Some c1) p1 st = Some (0, s1)
         \<and> map_option id_dev (kmem s1 p1) = Some 0
         \<and> map_option cdev_type (thermal_cdev s1 c1) = Some ''thermal-gpufreq-0''
         \<and> gpufreq_cooling_register n (Some c2) p2 s1 = Some (0, s2)
         \<and> map_option id_dev (kmem s2 p2) = Some 1
         \<and> map_option cdev_type (thermal_cdev s2 c2) = Some ''thermal-gpufreq-1''
         \<and> idr_used (gpufreq_idr s2) = {0, 1}
         \<and> gpufreq_cooling_unregister (Some c1) s2 = Some s3
         \<and> idr_used (gpufreq_idr s3) = {1}
         \<and> gpufreq_cooling_register n (Some c3) p3 s3 = Some (0, s4)
         \<and> map_option id_dev (kmem s4 p3) = Some 0
         \<and> map_option cdev_type (thermal_cdev s4 c3) = Some ''thermal-gpufreq-0''"
    by blast
  have first_fit: "idr_alloc r = (int k, r\<lparr>idr_used := insert (int k) (idr_used r)\<rparr>)"
    if "k < idr_cap r" and "int k \<notin> idr_used r" and "\<forall>j<k. int j \<in> idr_used r"
    using that by (rule idr_alloc_first_fit)
  have reuse: "idr_alloc (release_idr r' (int k'))
                 = (int k', r'\<lparr>idr_used := insert (int k') (idr_used r')\<rparr>)"
    if "k' < idr_cap r'" and "\<forall>j<k'. int j \<in> idr_used r'"
    using idr_alloc_first_fit [of k' "release_idr r' (int k')"] that
    by (simp add: release_idr_def idr_remove_def)
  from scenario first_fit reuse show ?thesis by blast
qed

theorem first_fit_reuse_witness:
  "(\<exists>s1 s2 s3 s4.
      gpufreq_cooling_register 20 (Some 11) 1 (three_devs :: unit kstate) = Some (0, s1)
    \<and> map_option id_dev (kmem s1 1) = Some 0
    \<and> map_option cdev_type (thermal_cdev s1 11) = Some ''thermal-gpufreq-0''
    \<and> gpufreq_cooling_register 20 (Some 12) 2 s1 = Some (0, s2)
    \<and> map_option id_dev (kmem s2 2) = Some 1
    \<and> map_option cdev_type (thermal_cdev s2 12) = Some ''thermal-gpufreq-1''
    \<and> idr_used (gpufreq_idr s2) = {0, 1}
    \<and> gpufreq_cooling_unregister (Some 11) s2 = Some s3
    \<and> idr_used (gpufreq_idr s3) = {1}
    \<and> gpufreq_cooling_register 20 (Some 13) 3 s3 = Some (0, s4)
    \<and> map_option id_dev (kmem s4 3) = Some 0
    \<and> map_option cdev_type (thermal_cdev s4 13) = Some ''thermal-gpufreq-0'')
   \<and> idr_alloc \<lparr>idr_cap = 2, idr_used = {0}\<rparr> = (1, \<lparr>idr_cap = 2, idr_used = {1, 0}\<rparr>)
   \<and> idr_alloc (release_idr \<lparr>idr_cap = 2, idr_used = {0, 1}\<rparr> 0)
       = (0, \<lparr>idr_cap = 2, idr_used = {0, 1}\<rparr>)"
  using first_fit_reuse [where st = "three_devs :: unit kstate" and n = 20
      and ?p1.0 = 1 and ?d1.0 = zeroed_dev and ?p2.0 = 2 and ?d2.0 = zeroed_dev
      and ?p3.0 = 3 and ?d3.0 = zeroed_dev and ?c1.0 = 11 and ?c2.0 = 12 and ?c3.0 = 13
      and k = 1 and r = "\<lparr>idr_cap = 2, idr_used = {0}\<rparr>"
      and k' = 0 and r' = "\<lparr>idr_cap = 2, idr_used = {0, 1}\<rparr>"]
  by (simp add: three_devs_def gpufreq_cooling_alloc_def init_state_def)

end
